theory Spec2Isabelle
  imports Complex_Main
begin

section \<open>The HTML lint orchestrator of html-lint.js\<close>

text \<open>
  The module keeps three variables (\<open>projectSpecificOptions\<close>, \<open>configErrorMessage\<close>,
  \<open>configID\<close>), reloads them from the project's \<open>.htmlvalidate.json\<close> through a chain of
  asynchronous steps, and answers lint requests through a worker. JavaScript runs every
  callback to completion, so each callback of the source is a function from the state it
  finds to the state it leaves, and an execution is a sequence of such callbacks with the
  host free to change the project root in between.
\<close>

subsection \<open>Values\<close>

text \<open>
  What \<open>JSON.parse\<close> can return. A number is an IEEE double, hence a rational; the sign of
  zero is not kept, since nothing in the module looks at it.
\<close>

datatype json =
    JNull
  | JBool bool
  | JNum rat
  | JStr string
  | JArr "json list"
  | JObj "(string \<times> json) list"

text \<open>The truthiness that \<open>if (config)\<close> tests.\<close>

fun truthy :: "json \<Rightarrow> bool" where
  "truthy JNull = False"
| "truthy (JBool b) = b"
| "truthy (JNum r) = (r \<noteq> 0)"
| "truthy (JStr s) = (s \<noteq> [])"
| "truthy (JArr xs) = True"
| "truthy (JObj kvs) = True"

text \<open>
  The values \<open>configErrorMessage\<close> takes: \<open>undefined\<close> (initially, and when the detector
  finds nothing), \<open>null\<close> (after a reload starts) or a string.
\<close>

datatype optstr = Undefined | Null | Str string

fun str_truthy :: "optstr \<Rightarrow> bool" where
  "str_truthy Undefined = False"
| "str_truthy Null = False"
| "str_truthy (Str m) = (m \<noteq> [])"

datatype inspection_type = META | WARNING | ERROR

text \<open>
  A settled promise, and a promise that may still be pending. \<open>resolve\<close> and \<open>reject\<close>
  settle a pending promise and do nothing to a settled one.
\<close>

datatype 'a settled = Resolved 'a | Rejected string

datatype 'a promise = Pending | Settled "'a settled"

fun resolve :: "'a promise \<Rightarrow> 'a \<Rightarrow> 'a promise" where
  "resolve Pending v = Settled (Resolved v)"
| "resolve (Settled r) v = Settled r"

fun reject :: "'a promise \<Rightarrow> string \<Rightarrow> 'a promise" where
  "reject Pending e = Settled (Rejected e)"
| "reject (Settled r) e = Settled r"

subsection \<open>The host application\<close>

text \<open>
  The functions and constants of the host that the module calls and that are not part of
  it: \<open>path.join\<close>, \<open>ProjectManager.getProjectRelativeOrDisplayPath\<close> (which depends on
  the project root at the time of the call, given here as its first argument),
  \<open>StringUtils.format\<close> with one argument, \<open>JSON.parse\<close> (\<open>None\<close> when it throws),
  \<open>FileSystemError.NOT_FOUND\<close> and the two message templates of \<open>Strings\<close>.
\<close>

record host =
  path_join :: "string \<Rightarrow> string \<Rightarrow> string"
  getProjectRelativeOrDisplayPath :: "string \<Rightarrow> string \<Rightarrow> string"
  format :: "string \<Rightarrow> string \<Rightarrow> string"
  JSON_parse :: "string \<Rightarrow> json option"
  NOT_FOUND :: string
  HTML_LINT_CONFIG_JSON_ERROR :: string
  HTML_LINT_CONFIG_UNSUPPORTED :: string

definition CONFIG_FILE_NAME :: string where
  "CONFIG_FILE_NAME = ''.htmlvalidate.json''"

definition UNSUPPORTED_CONFIG_FILES :: "string list" where
  "UNSUPPORTED_CONFIG_FILES = [''.htmlvalidate.js'', ''.htmlvalidate.cjs'']"

subsection \<open>Module state\<close>

text \<open>
  \<open>projectSpecificOptions\<close> is \<open>None\<close> while it is \<open>undefined\<close>, \<open>Some JNull\<close> when it is
  \<open>null\<close>. \<open>configID\<close> is a JavaScript number that starts at 0 and only ever has 1 added;
  it is modelled as a natural number. \<open>projectRoot\<close> is what
  \<open>ProjectManager.getProjectRoot().fullPath\<close> returns at the moment. \<open>effects\<close> records,
  in order, the calls of \<open>CodeInspection.requestRun\<close> and of \<open>Metrics.countEvent\<close> (always
  with the event type \<open>LINT\<close>, so only the category and the sub-category are kept); writes
  to the console are not recorded.
\<close>

datatype effect = RequestRun | CountEvent string string

record lint_state =
  projectSpecificOptions :: "json option"
  configErrorMessage :: optstr
  configID :: nat
  projectRoot :: string
  effects :: "effect list"

text \<open>
  An asynchronous call in flight, with what its continuation has captured: the read of the
  config file started by \<open>_reloadOptions\<close> for a root, and an \<open>existsAsync\<close> of the
  detector, waiting for the first name of the list with the rest still to check.
\<close>

datatype task = ReadConfig string | ExistsCheck string "string list"

subsection \<open>Config loader\<close>

text \<open>How \<open>DocumentManager.getDocumentForPath\<close> ends: with the document's text, or with an error.\<close>

datatype doc_read = DocDone string | DocFail string

text \<open>
  \<open>_readConfig(dir)\<close>, called while the project root is \<open>curRoot\<close>, as a function of how the
  read ends. The second argument that the source passes to \<open>reject\<close> is dropped by
  \<open>reject\<close>, which takes one.
\<close>

definition readConfig :: "host \<Rightarrow> string \<Rightarrow> string \<Rightarrow> doc_read \<Rightarrow> json settled" where
  "readConfig h curRoot dir r =
     (let configFilePath = path_join h dir CONFIG_FILE_NAME;
          displayPath = getProjectRelativeOrDisplayPath h curRoot configFilePath
      in case r of
           DocDone content \<Rightarrow>
             (case JSON_parse h content of
                None \<Rightarrow> Rejected (format h (HTML_LINT_CONFIG_JSON_ERROR h) displayPath)
              | Some config \<Rightarrow> Resolved config)
         | DocFail err \<Rightarrow>
             if err = NOT_FOUND h then Resolved JNull
             else Rejected ''Error reading JSHint Config File'')"

subsection \<open>Unsupported-config detector\<close>

text \<open>The part of \<open>_validateUnsupportedConfig\<close> after its loop.\<close>

definition validateUnsupportedConfig_finish :: "string \<Rightarrow> optstr \<Rightarrow> lint_state \<Rightarrow> lint_state" where
  "validateUnsupportedConfig_finish scanningProjectPath errorMessage s =
     (if scanningProjectPath \<noteq> projectRoot s then s
      else s\<lparr>configErrorMessage := errorMessage, effects := effects s @ [RequestRun]\<rparr>)"

text \<open>
  The loop of \<open>_validateUnsupportedConfig\<close> at the head of an iteration: with a name left,
  it calls \<open>existsAsync\<close> and suspends; with none left, \<open>errorMessage\<close> is still undefined
  and the function goes on to its end.
\<close>

fun validateUnsupportedConfig_loop :: "string \<Rightarrow> string list \<Rightarrow> lint_state \<Rightarrow> lint_state \<times> task list" where
  "validateUnsupportedConfig_loop scanningProjectPath [] s =
     (validateUnsupportedConfig_finish scanningProjectPath Undefined s, [])"
| "validateUnsupportedConfig_loop scanningProjectPath (unsupportedFileName # rest) s =
     (s, [ExistsCheck scanningProjectPath (unsupportedFileName # rest)])"

text \<open>
  The continuation of \<open>await FileSystem.existsAsync(...)\<close> for the first name of the list:
  on \<open>true\<close> the loop breaks with the message for that name, on \<open>false\<close> the loop goes to
  the next name.
\<close>

fun existsAsync_resolved :: "host \<Rightarrow> string \<Rightarrow> string list \<Rightarrow> bool \<Rightarrow> lint_state \<Rightarrow> lint_state \<times> task list" where
  "existsAsync_resolved h scanningProjectPath [] ex s = (s, [])"
| "existsAsync_resolved h scanningProjectPath (unsupportedFileName # rest) ex s =
     (if ex
      then (validateUnsupportedConfig_finish scanningProjectPath
              (Str (format h (HTML_LINT_CONFIG_UNSUPPORTED h) unsupportedFileName)) s, [])
      else validateUnsupportedConfig_loop scanningProjectPath rest s)"

definition validateUnsupportedConfig :: "string \<Rightarrow> lint_state \<Rightarrow> lint_state \<times> task list" where
  "validateUnsupportedConfig scanningProjectPath s =
     validateUnsupportedConfig_loop scanningProjectPath UNSUPPORTED_CONFIG_FILES s"

subsection \<open>Reload controller\<close>

text \<open>The synchronous part of \<open>_reloadOptions\<close>: it leaves the read of the config file in flight.\<close>

definition reloadOptions :: "lint_state \<Rightarrow> lint_state \<times> task list" where
  "reloadOptions s =
     (s\<lparr>projectSpecificOptions := Some JNull, configErrorMessage := Null,
        configID := configID s + 1\<rparr>,
      [ReadConfig (projectRoot s)])"

text \<open>The callback given to \<open>then\<close>.\<close>

definition reloadOptions_then :: "string \<Rightarrow> json \<Rightarrow> lint_state \<Rightarrow> lint_state \<times> task list" where
  "reloadOptions_then scanningProjectPath config s =
     (let s1 = s\<lparr>configID := configID s + 1\<rparr>
      in if scanningProjectPath \<noteq> projectRoot s1 then (s1, [])
         else if truthy config
         then (s1\<lparr>projectSpecificOptions := Some config, configErrorMessage := Null,
                  effects := effects s1 @ [CountEvent ''html'' ''configPresent'', RequestRun]\<rparr>, [])
         else validateUnsupportedConfig scanningProjectPath s1)"

text \<open>The callback given to \<open>catch\<close>.\<close>

definition reloadOptions_catch :: "string \<Rightarrow> string \<Rightarrow> lint_state \<Rightarrow> lint_state \<times> task list" where
  "reloadOptions_catch scanningProjectPath err s =
     (let s1 = s\<lparr>configID := configID s + 1\<rparr>
      in if scanningProjectPath \<noteq> projectRoot s1 then (s1, [])
         else (s1\<lparr>configErrorMessage := Str err,
                  effects := effects s1 @ [CountEvent ''HTMLConfig'' ''error'', RequestRun]\<rparr>, []))"

text \<open>
  The promise of \<open>_readConfig\<close> settles: \<open>then\<close> runs on a resolution, \<open>catch\<close> on a
  rejection. (The callbacks call only host functions that return normally, so \<open>catch\<close>
  never runs after \<open>then\<close>.)
\<close>

fun reloadOptions_settled :: "string \<Rightarrow> json settled \<Rightarrow> lint_state \<Rightarrow> lint_state \<times> task list" where
  "reloadOptions_settled scanningProjectPath (Resolved config) s =
     reloadOptions_then scanningProjectPath config s"
| "reloadOptions_settled scanningProjectPath (Rejected err) s =
     reloadOptions_catch scanningProjectPath err s"

subsection \<open>Change-event router\<close>

text \<open>An absent array (\<open>undefined\<close> or \<open>null\<close>) is \<open>None\<close>.\<close>

fun isFileInArray :: "string \<Rightarrow> string list option \<Rightarrow> bool" where
  "isFileInArray pathToMatch None = False"
| "isFileInArray pathToMatch (Some []) = False"
| "isFileInArray pathToMatch (Some (filePath # rest)) =
     (if filePath = pathToMatch then True else isFileInArray pathToMatch (Some rest))"

definition projectFileChanged ::
  "host \<Rightarrow> string option \<Rightarrow> string list option \<Rightarrow> string list option \<Rightarrow> lint_state
     \<Rightarrow> lint_state \<times> task list" where
  "projectFileChanged h changedPath added removed s =
     (let configFilePath = path_join h (projectRoot s) CONFIG_FILE_NAME
      in if changedPath = Some configFilePath
            \<or> isFileInArray configFilePath added \<or> isFileInArray configFilePath removed
         then reloadOptions s
         else (s, []))"

subsection \<open>Lint dispatcher\<close>

record position =
  line :: int
  ch :: int

record diagnostic =
  pos :: position
  endPos :: "position option"
  message :: optstr
  type :: inspection_type
  moreInfoURL :: "string option"

text \<open>
  A raw finding of the worker (\<open>start\<close>, \<open>end\<close>, \<open>message\<close>, \<open>ruleId\<close>, \<open>severity\<close>,
  \<open>ruleUrl\<close>) and the request sent to it (\<open>text\<close>, \<open>filePath\<close>, \<open>configID\<close>, \<open>config\<close>);
  the field names carry a prefix because \<open>end\<close>, \<open>text\<close> and the names shared with other
  records are taken.
\<close>

record lintError =
  le_start :: int
  le_end :: int
  le_message :: string
  le_ruleId :: string
  le_severity :: int
  le_ruleUrl :: "string option"

record request =
  rq_text :: string
  rq_filePath :: string
  rq_configID :: nat
  rq_config :: "json option"

text \<open>The editor that \<open>EditorManager.getCurrentFullEditor()\<close> returns, when there is one.\<close>

record editor =
  document_file_fullPath :: string
  posFromIndex :: "int \<Rightarrow> position"

fun getTypeFromSeverity :: "int \<Rightarrow> inspection_type" where
  "getTypeFromSeverity sev =
     (if sev = 1 then WARNING else if sev = 2 then ERROR else META)"

definition getLinterConfigFileErrorMsg :: "lint_state \<Rightarrow> diagnostic list" where
  "getLinterConfigFileErrorMsg s =
     [\<lparr>pos = \<lparr>line = - 1, ch = 0\<rparr>, endPos = None, message = configErrorMessage s,
       type = ERROR, moreInfoURL = None\<rparr>]"

text \<open>
  The executor of the promise that \<open>lintOneFile\<close> returns: the promise as the executor
  leaves it, and the request sent to the worker, if one is sent. A resolution without a
  value (\<open>resolve()\<close>) is \<open>None\<close>, one with \<open>{ errors: ... }\<close> is \<open>Some\<close> of the errors.
\<close>

definition lintOneFile ::
  "lint_state \<Rightarrow> string \<Rightarrow> string \<Rightarrow> diagnostic list option promise \<times> request option" where
  "lintOneFile s text fullPath =
     (if str_truthy (configErrorMessage s)
      then (resolve Pending (Some (getLinterConfigFileErrorMsg s)), None)
      else (Pending,
            Some \<lparr>rq_text = text, rq_filePath = fullPath, rq_configID = configID s,
                  rq_config = projectSpecificOptions s\<rparr>))"

definition toDiagnostic :: "editor \<Rightarrow> lintError \<Rightarrow> diagnostic" where
  "toDiagnostic ed lintError =
     \<lparr>pos = posFromIndex ed (le_start lintError),
      endPos = Some (posFromIndex ed (le_end lintError)),
      message = Str (le_message lintError @ '' ('' @ le_ruleId lintError @ '')''),
      type = getTypeFromSeverity (le_severity lintError),
      moreInfoURL = le_ruleUrl lintError\<rparr>"

text \<open>
  The callback given to \<open>then\<close> on the worker's promise, run when the project root is
  \<open>curRoot\<close> and the current full editor is \<open>cur\<close>. The worker's result is an array or absent.
  After \<open>resolve({ errors })\<close> the source falls through to \<open>resolve()\<close>.
\<close>

definition lintOneFile_then ::
  "host \<Rightarrow> string \<Rightarrow> editor option \<Rightarrow> string \<Rightarrow> lintError list option
     \<Rightarrow> diagnostic list option promise \<Rightarrow> diagnostic list option promise" where
  "lintOneFile_then h curRoot cur fullPath lintResult p =
     (case cur of
        None \<Rightarrow>
          reject p (''Lint failed as  '' @ getProjectRelativeOrDisplayPath h curRoot fullPath
                     @ '' is not active.'')
      | Some ed \<Rightarrow>
          if document_file_fullPath ed \<noteq> fullPath
          then reject p (''Lint failed as  '' @ getProjectRelativeOrDisplayPath h curRoot fullPath
                          @ '' is not active.'')
          else (case lintResult of
                  None \<Rightarrow> resolve p None
                | Some [] \<Rightarrow> resolve p None
                | Some (e # es) \<Rightarrow> resolve (resolve p (Some (map (toDiagnostic ed) (e # es)))) None))"

text \<open>How the worker call ends. No callback is attached for a failure.\<close>

datatype exec_outcome = ExecDone "lintError list option" | ExecFailed string

fun execPeer_settled ::
  "host \<Rightarrow> string \<Rightarrow> editor option \<Rightarrow> string \<Rightarrow> exec_outcome
     \<Rightarrow> diagnostic list option promise \<Rightarrow> diagnostic list option promise" where
  "execPeer_settled h curRoot cur fullPath (ExecDone lintResult) p =
     lintOneFile_then h curRoot cur fullPath lintResult p"
| "execPeer_settled h curRoot cur fullPath (ExecFailed err) p = p"

text \<open>
  A whole lint request: submitted in state \<open>s\<close>; if a request went to the worker, the
  worker's call ends with \<open>out\<close> while the project root is \<open>curRoot\<close> and the current editor
  is \<open>cur\<close>. The result is the promise's final state and whether the worker was invoked.
\<close>

definition lintOneFile_run ::
  "host \<Rightarrow> lint_state \<Rightarrow> string \<Rightarrow> string \<Rightarrow> string \<Rightarrow> editor option \<Rightarrow> exec_outcome
     \<Rightarrow> diagnostic list option promise \<times> bool" where
  "lintOneFile_run h s text fullPath curRoot cur out =
     (case lintOneFile s text fullPath of
        (p, None) \<Rightarrow> (p, False)
      | (p, Some rq) \<Rightarrow> (execPeer_settled h curRoot cur (rq_filePath rq) out p, True))"

subsection \<open>Executions\<close>

text \<open>
  One step of the module with its calls in flight: the host changes the project root; a
  project is opened (or the application becomes ready); a file-change notification
  arrives; the preference changes; the read of a reload ends; an existence check of the
  detector ends with an answer, or fails (the rejection goes to \<open>console.error\<close>).
  A reload for the root \<open>p\<close> called \<open>_readConfig\<close> while the root was \<open>p\<close>, which is when
  the display path was computed. Lint requests read the state and do not write it, so
  they are no step.
\<close>

inductive step :: "host \<Rightarrow> lint_state \<times> task list \<Rightarrow> lint_state \<times> task list \<Rightarrow> bool"
  for h :: host where
  root_changed: "step h (s, ts) (s\<lparr>projectRoot := r\<rparr>, ts)"
| project_open: "reloadOptions s = (s', new) \<Longrightarrow> step h (s, ts) (s', ts @ new)"
| file_changed:
    "projectFileChanged h changedPath added removed s = (s', new)
       \<Longrightarrow> step h (s, ts) (s', ts @ new)"
| pref_changed: "step h (s, ts) (s\<lparr>effects := effects s @ [RequestRun]\<rparr>, ts)"
| read_settled:
    "ReadConfig p \<in> set ts \<Longrightarrow> reloadOptions_settled p (readConfig h p p r) s = (s', new)
       \<Longrightarrow> step h (s, ts) (s', remove1 (ReadConfig p) ts @ new)"
| exists_resolved:
    "ExistsCheck p names \<in> set ts \<Longrightarrow> existsAsync_resolved h p names ex s = (s', new)
       \<Longrightarrow> step h (s, ts) (s', remove1 (ExistsCheck p names) ts @ new)"
| exists_failed:
    "ExistsCheck p names \<in> set ts \<Longrightarrow> step h (s, ts) (s, remove1 (ExistsCheck p names) ts)"

text \<open>The module as it is loaded, in a project with the given root.\<close>

definition initial :: "string \<Rightarrow> lint_state" where
  "initial curRoot =
     \<lparr>projectSpecificOptions = None, configErrorMessage = Undefined, configID = 0,
      projectRoot = curRoot, effects = []\<rparr>"

text \<open>
  A reload that nothing interleaves with: the project root stays the same, the read ends
  with \<open>r\<close>, and the file system answers the existence checks through \<open>ex\<close>.
\<close>

fun detector_run :: "host \<Rightarrow> (string \<Rightarrow> bool) \<Rightarrow> string \<Rightarrow> string list \<Rightarrow> lint_state \<Rightarrow> lint_state" where
  "detector_run h ex p [] s = fst (validateUnsupportedConfig_loop p [] s)"
| "detector_run h ex p (n # rest) s =
     (if ex (path_join h p n) then fst (existsAsync_resolved h p (n # rest) True s)
      else detector_run h ex p rest s)"

definition reload_run :: "host \<Rightarrow> doc_read \<Rightarrow> (string \<Rightarrow> bool) \<Rightarrow> lint_state \<Rightarrow> lint_state" where
  "reload_run h r ex s =
     (let p = projectRoot s
      in case reloadOptions_settled p (readConfig h p p r) (fst (reloadOptions s)) of
           (s2, []) \<Rightarrow> s2
         | (s2, t # ts) \<Rightarrow> detector_run h ex p UNSUPPORTED_CONFIG_FILES s2)"

subsection \<open>A concrete host\<close>

text \<open>
  Values for the host's functions at which the definitions can be evaluated. A project
  root ends in a slash, so joining a name to it appends the name; the display path of a
  file under the root is the path relative to the root; a template has its placeholder at
  the end, so formatting appends the argument. \<open>sample_parse\<close> gives what \<open>JSON.parse\<close>
  returns for the texts \<open>null\<close>, \<open>false\<close>, \<open>0\<close> and \<open>{}\<close>, and the syntax error that it
  throws for \<open>{not valid json\<close>; no other text is used with it.
\<close>

definition sample_parse :: "string \<Rightarrow> json option" where
  "sample_parse content =
     (if content = ''null'' then Some JNull
      else if content = ''false'' then Some (JBool False)
      else if content = ''0'' then Some (JNum 0)
      else if content = ''{}'' then Some (JObj [])
      else None)"

definition sample_host :: host where
  "sample_host =
     \<lparr>path_join = (\<lambda>dir name. dir @ name),
      getProjectRelativeOrDisplayPath =
        (\<lambda>curRoot p. if take (length curRoot) p = curRoot then drop (length curRoot) p else p),
      format = (\<lambda>template arg. template @ arg),
      JSON_parse = sample_parse,
      NOT_FOUND = ''NotFound'',
      HTML_LINT_CONFIG_JSON_ERROR = ''Invalid JSON in '',
      HTML_LINT_CONFIG_UNSUPPORTED = ''Unsupported config file ''\<rparr>"

text \<open>A file system that answers \<open>existsAsync\<close> from the list of the paths that exist.\<close>

definition exists_in :: "string list \<Rightarrow> string \<Rightarrow> bool" where
  "exists_in present path = (path \<in> set present)"

definition sample_editor :: editor where
  "sample_editor =
     \<lparr>document_file_fullPath = ''/p/a.html'',
      posFromIndex = (\<lambda>i. \<lparr>line = i div 80, ch = i mod 80\<rparr>)\<rparr>"

text \<open>
  States of the module along an execution in which the user leaves the project \<open>/a/\<close>
  for \<open>/b/\<close> and returns: the read of a reload of \<open>/a/\<close> is in flight and the project
  has become \<open>/b/\<close>; the read has found no config file, the detector's first check is in
  flight and the project has become \<open>/b/\<close>; and the detector's second check has found
  \<open>.htmlvalidate.cjs\<close> after the project has become \<open>/a/\<close> again.
\<close>

definition sample_switched :: lint_state where
  "sample_switched = (fst (reloadOptions (initial ''/a/'')))\<lparr>projectRoot := ''/b/''\<rparr>"

definition sample_checking :: lint_state where
  "sample_checking =
     (fst (reloadOptions_settled ''/a/'' (Resolved JNull) (fst (reloadOptions (initial ''/a/'')))))
       \<lparr>projectRoot := ''/b/''\<rparr>"

definition sample_published :: lint_state where
  "sample_published =
     fst (existsAsync_resolved sample_host ''/a/'' [''.htmlvalidate.cjs''] True
            (sample_checking\<lparr>projectRoot := ''/a/''\<rparr>))"

text \<open>
  States after a reload that failed on malformed JSON, and after a reload that found a
  config.
\<close>

definition sample_failed :: lint_state where
  "sample_failed = \<lparr>projectSpecificOptions = Some JNull,
      configErrorMessage = Str ''Invalid JSON in .htmlvalidate.json'',
      configID = 2, projectRoot = ''/p/'', effects = [CountEvent ''HTMLConfig'' ''error'', RequestRun]\<rparr>"

definition sample_loaded :: lint_state where
  "sample_loaded = \<lparr>projectSpecificOptions = Some (JObj []), configErrorMessage = Null,
      configID = 2, projectRoot = ''/p/'',
      effects = [CountEvent ''html'' ''configPresent'', RequestRun]\<rparr>"

definition sample_finding :: lintError where
  "sample_finding = \<lparr>le_start = 85, le_end = 90, le_message = ''Element is deprecated'',
      le_ruleId = ''deprecated'', le_severity = 2,
      le_ruleUrl = Some ''https://html-validate.org/rules/deprecated.html''\<rparr>"

section \<open>Properties\<close>

subsection \<open>Continuations that find another project root\<close>

lemma finish_stale:
  "p \<noteq> projectRoot s \<Longrightarrow> validateUnsupportedConfig_finish p m s = s"
  by (simp add: validateUnsupportedConfig_finish_def)

lemma loop_stale:
  "p \<noteq> projectRoot s \<Longrightarrow> fst (validateUnsupportedConfig_loop p names s) = s"
  by (cases names) (simp_all add: finish_stale)

lemma exists_stale:
  "p \<noteq> projectRoot s \<Longrightarrow> fst (existsAsync_resolved h p names ex s) = s"
  by (cases names) (simp_all add: finish_stale loop_stale)

lemma settled_stale:
  "p \<noteq> projectRoot s \<Longrightarrow>
     reloadOptions_settled p outcome s = (s\<lparr>configID := configID s + 1\<rparr>, [])"
  by (cases outcome) (simp_all add: reloadOptions_then_def reloadOptions_catch_def Let_def)


lemma sample_checking_eq:
  "sample_checking = \<lparr>projectSpecificOptions = Some JNull, configErrorMessage = Null,
      configID = 2, projectRoot = ''/b/'', effects = []\<rparr>"
  by (simp add: sample_checking_def reloadOptions_def reloadOptions_then_def Let_def initial_def
      validateUnsupportedConfig_def UNSUPPORTED_CONFIG_FILES_def)

lemma sample_published_eq:
  "sample_published = \<lparr>projectSpecificOptions = Some JNull,
      configErrorMessage = Str ''Unsupported config file .htmlvalidate.cjs'',
      configID = 2, projectRoot = ''/a/'', effects = [RequestRun]\<rparr>"
  by (simp add: sample_published_def sample_checking_eq validateUnsupportedConfig_finish_def
      sample_host_def)

lemma sample_checking_reached:
  "(step sample_host)\<^sup>*\<^sup>* (initial ''/a/'', [])
     (sample_checking, [ExistsCheck ''/a/'' UNSUPPORTED_CONFIG_FILES])"
proof -
  let ?s1 = "fst (reloadOptions (initial ''/a/''))"
  let ?s2 = "fst (reloadOptions_settled ''/a/'' (Resolved JNull) ?s1)"
  let ?t = "ExistsCheck ''/a/'' UNSUPPORTED_CONFIG_FILES"
  have "reloadOptions (initial ''/a/'') = (?s1, [ReadConfig ''/a/''])"
    by (simp add: reloadOptions_def initial_def)
  then have "step sample_host (initial ''/a/'', []) (?s1, [] @ [ReadConfig ''/a/''])"
    by (rule step.project_open)
  then have one: "step sample_host (initial ''/a/'', []) (?s1, [ReadConfig ''/a/''])"
    by simp
  have absent: "readConfig sample_host ''/a/'' ''/a/'' (DocFail ''NotFound'') = Resolved JNull"
    by (simp add: readConfig_def sample_host_def)
  have "reloadOptions_settled ''/a/'' (readConfig sample_host ''/a/'' ''/a/'' (DocFail ''NotFound'')) ?s1
      = (?s2, [?t])"
    unfolding absent
    by (simp add: reloadOptions_def reloadOptions_then_def Let_def initial_def
        validateUnsupportedConfig_def UNSUPPORTED_CONFIG_FILES_def)
  then have "step sample_host (?s1, [ReadConfig ''/a/''])
      (?s2, remove1 (ReadConfig ''/a/'') [ReadConfig ''/a/''] @ [?t])"
    by (rule step.read_settled [rotated]) simp
  then have two: "step sample_host (?s1, [ReadConfig ''/a/'']) (?s2, [?t])"
    by simp
  have "step sample_host (?s2, [?t]) (?s2\<lparr>projectRoot := ''/b/''\<rparr>, [?t])"
    by (rule step.root_changed)
  then have three: "step sample_host (?s2, [?t]) (sample_checking, [?t])"
    by (simp add: sample_checking_def)
  from one two three show ?thesis
    by (meson r_into_rtranclp rtranclp.rtrancl_into_rtrancl)
qed

text \<open>
  The detector tests the project root once, after its loop. A reload of \<open>/a/\<close> finds no
  config file; the project becomes \<open>/b/\<close>; the check for \<open>.htmlvalidate.js\<close> answers
  false while the root differs from the captured one, and the loop goes on; the project
  becomes \<open>/a/\<close> again; the check for \<open>.htmlvalidate.cjs\<close> answers true, and the same
  reload sets \<open>configErrorMessage\<close> and calls \<open>requestRun\<close>.
\<close>

theorem stale_check_counterexample:
  "(step sample_host)\<^sup>*\<^sup>* (initial ''/a/'', [])
      (sample_checking, [ExistsCheck ''/a/'' UNSUPPORTED_CONFIG_FILES])
   \<and> ''/a/'' \<noteq> projectRoot sample_checking
   \<and> step sample_host (sample_checking, [ExistsCheck ''/a/'' UNSUPPORTED_CONFIG_FILES])
        (sample_checking, [ExistsCheck ''/a/'' [''.htmlvalidate.cjs'']])
   \<and> step sample_host (sample_checking, [ExistsCheck ''/a/'' [''.htmlvalidate.cjs'']])
        (sample_checking\<lparr>projectRoot := ''/a/''\<rparr>, [ExistsCheck ''/a/'' [''.htmlvalidate.cjs'']])
   \<and> step sample_host
        (sample_checking\<lparr>projectRoot := ''/a/''\<rparr>, [ExistsCheck ''/a/'' [''.htmlvalidate.cjs'']])
        (sample_published, [])
   \<and> configErrorMessage sample_checking = Null
   \<and> configErrorMessage sample_published = Str ''Unsupported config file .htmlvalidate.cjs''
   \<and> effects sample_checking = []
   \<and> effects sample_published = [RequestRun]"
proof -
  let ?both = "ExistsCheck ''/a/'' UNSUPPORTED_CONFIG_FILES"
  let ?last = "ExistsCheck ''/a/'' [''.htmlvalidate.cjs'']"
  let ?again = "sample_checking\<lparr>projectRoot := ''/a/''\<rparr>"
  have stale: "''/a/'' \<noteq> projectRoot sample_checking"
    by (simp add: sample_checking_eq)
  have "existsAsync_resolved sample_host ''/a/'' UNSUPPORTED_CONFIG_FILES False sample_checking
      = (sample_checking, [?last])"
    by (simp add: UNSUPPORTED_CONFIG_FILES_def)
  then have "step sample_host (sample_checking, [?both])
      (sample_checking, remove1 ?both [?both] @ [?last])"
    by (rule step.exists_resolved [rotated]) simp
  then have st_js: "step sample_host (sample_checking, [?both]) (sample_checking, [?last])"
    by simp
  have st_root: "step sample_host (sample_checking, [?last]) (?again, [?last])"
    by (rule step.root_changed)
  have "existsAsync_resolved sample_host ''/a/'' [''.htmlvalidate.cjs''] True ?again
      = (sample_published, [])"
    by (simp add: sample_published_def)
  then have "step sample_host (?again, [?last]) (sample_published, remove1 ?last [?last] @ [])"
    by (rule step.exists_resolved [rotated]) simp
  then have st_cjs: "step sample_host (?again, [?last]) (sample_published, [])"
    by simp
  show ?thesis
    using sample_checking_reached stale st_js st_root st_cjs
    by (simp add: sample_checking_eq sample_published_eq)
qed

text \<open>
  C1, amended. When the read of the config file has ended and the project root is no
  longer the one the reload captured, the continuation leaves \<open>projectSpecificOptions\<close>
  and \<open>configErrorMessage\<close> as they are, calls \<open>requestRun\<close> not at all and leaves
  nothing of the reload in flight. When the detector's checks are over (a name exists, or
  the last one does not) and the root differs, the state stays as it is and nothing is
  left in flight. A check that answers false with a name left changes nothing either,
  as no existence check does under another root, but it leaves the next check in flight,
  and that one tests the root anew.
\<close>

theorem stale_root_guard:
  assumes "scanningProjectPath \<noteq> projectRoot s"
  shows "projectSpecificOptions (fst (reloadOptions_settled scanningProjectPath outcome s))
           = projectSpecificOptions s
       \<and> configErrorMessage (fst (reloadOptions_settled scanningProjectPath outcome s))
           = configErrorMessage s
       \<and> effects (fst (reloadOptions_settled scanningProjectPath outcome s)) = effects s
       \<and> snd (reloadOptions_settled scanningProjectPath outcome s) = []
       \<and> existsAsync_resolved h scanningProjectPath (name # rest) True s = (s, [])
       \<and> existsAsync_resolved h scanningProjectPath [name] False s = (s, [])
       \<and> existsAsync_resolved h scanningProjectPath (name # next # rest) False s
           = (s, [ExistsCheck scanningProjectPath (next # rest)])
       \<and> fst (existsAsync_resolved h scanningProjectPath names ex s) = s"
  using assms by (simp add: settled_stale exists_stale finish_stale)

text \<open>
  The project has become \<open>/b/\<close> while the detector of a reload of \<open>/a/\<close> is checking: an
  unsupported file found there, or none, is not published. And the project has become
  \<open>/b/\<close> while the read of a reload of \<open>/a/\<close> is in flight: a config read for \<open>/a/\<close> is
  not published.
\<close>

theorem stale_root_guard_witness:
  "(step sample_host)\<^sup>*\<^sup>* (initial ''/a/'', [])
      (sample_checking, [ExistsCheck ''/a/'' UNSUPPORTED_CONFIG_FILES])
   \<and> ''/a/'' \<noteq> projectRoot sample_checking
   \<and> existsAsync_resolved sample_host ''/a/'' UNSUPPORTED_CONFIG_FILES True sample_checking
       = (sample_checking, [])
   \<and> existsAsync_resolved sample_host ''/a/'' [''.htmlvalidate.cjs''] False sample_checking
       = (sample_checking, [])
   \<and> ''/a/'' \<noteq> projectRoot sample_switched
   \<and> projectSpecificOptions
        (fst (reloadOptions_settled ''/a/'' (Resolved (JObj [(''extends'', JArr [])])) sample_switched))
       = Some JNull
   \<and> configErrorMessage
        (fst (reloadOptions_settled ''/a/'' (Resolved (JObj [(''extends'', JArr [])])) sample_switched))
       = Null
   \<and> effects
        (fst (reloadOptions_settled ''/a/'' (Resolved (JObj [(''extends'', JArr [])])) sample_switched))
       = []
   \<and> snd (reloadOptions_settled ''/a/'' (Resolved (JObj [(''extends'', JArr [])])) sample_switched)
       = []"
proof -
  have stale_c: "''/a/'' \<noteq> projectRoot sample_checking"
    by (simp add: sample_checking_eq)
  have stale_s: "''/a/'' \<noteq> projectRoot sample_switched"
    by (simp add: sample_switched_def)
  have fields: "projectSpecificOptions sample_switched = Some JNull
      \<and> configErrorMessage sample_switched = Null \<and> effects sample_switched = []"
    by (simp add: sample_switched_def reloadOptions_def initial_def)
  show ?thesis
    using sample_checking_reached stale_c stale_s fields
      stale_root_guard [OF stale_c, of "Resolved JNull" sample_host "''.htmlvalidate.js''"
        "[''.htmlvalidate.cjs'']" "''.htmlvalidate.cjs''" "[]" True]
      stale_root_guard [OF stale_c, of "Resolved JNull" sample_host "''.htmlvalidate.cjs''"
        "[]" "''.htmlvalidate.cjs''" "[]" True]
      stale_root_guard [OF stale_s, of "Resolved (JObj [(''extends'', JArr [])])" sample_host
        "''.htmlvalidate.js''" "[]" "''.htmlvalidate.cjs''" "[]" True]
    by (simp add: UNSUPPORTED_CONFIG_FILES_def)
qed

subsection \<open>Config loader\<close>

text \<open>
  The loader resolves with \<open>null\<close> not only when the file is not found: a config file
  whose text is \<open>null\<close> is read successfully, and \<open>JSON.parse\<close> returns \<open>null\<close> for it.
\<close>

theorem readConfig_null_counterexample:
  "\<not> (readConfig sample_host ''/p/'' ''/p/'' (DocDone ''null'') = Resolved JNull
        \<longleftrightarrow> DocDone ''null'' = DocFail (NOT_FOUND sample_host))"
  by (simp add: readConfig_def sample_host_def sample_parse_def)

text \<open>
  C3, amended. The loader resolves with the parsed value when the file is read and its
  text is JSON; it rejects with the JSON-error template formatted with the display path
  when the text is not JSON; when the read fails it resolves with \<open>null\<close> for the
  not-found error and rejects with a fixed message for every other error. It resolves
  with \<open>null\<close> exactly when the read fails with not-found or the text parses to \<open>null\<close>.
\<close>

theorem readConfig_outcomes:
  "(r = DocDone content \<and> JSON_parse h content = Some config
      \<longrightarrow> readConfig h curRoot dir r = Resolved config)
   \<and> (r = DocDone content \<and> JSON_parse h content = None
      \<longrightarrow> readConfig h curRoot dir r
            = Rejected (format h (HTML_LINT_CONFIG_JSON_ERROR h)
                (getProjectRelativeOrDisplayPath h curRoot (path_join h dir CONFIG_FILE_NAME))))
   \<and> (r = DocFail err \<and> err = NOT_FOUND h \<longrightarrow> readConfig h curRoot dir r = Resolved JNull)
   \<and> (r = DocFail err \<and> err \<noteq> NOT_FOUND h
      \<longrightarrow> readConfig h curRoot dir r = Rejected ''Error reading JSHint Config File'')
   \<and> (readConfig h curRoot dir r = Resolved JNull
      \<longleftrightarrow> r = DocFail (NOT_FOUND h) \<or> (\<exists>text. r = DocDone text \<and> JSON_parse h text = Some JNull))"
  by (cases r) (auto simp add: readConfig_def Let_def split: option.splits)

text \<open>
  A config that is an empty object, malformed JSON, no config file, an unreadable file.
\<close>

theorem readConfig_outcomes_witness:
  "readConfig sample_host ''/p/'' ''/p/'' (DocDone ''{}'') = Resolved (JObj [])
   \<and> readConfig sample_host ''/p/'' ''/p/'' (DocDone ''{not valid json'')
       = Rejected ''Invalid JSON in .htmlvalidate.json''
   \<and> readConfig sample_host ''/p/'' ''/p/'' (DocFail ''NotFound'') = Resolved JNull
   \<and> readConfig sample_host ''/p/'' ''/p/'' (DocFail ''NotReadable'')
       = Rejected ''Error reading JSHint Config File''"
  using
    readConfig_outcomes [of "DocDone ''{}''" "''{}''" sample_host "JObj []" "''/p/''" "''/p/''" "''''"]
    readConfig_outcomes [of "DocDone ''{not valid json''" "''{not valid json''" sample_host JNull
      "''/p/''" "''/p/''" "''''"]
    readConfig_outcomes [of "DocFail ''NotFound''" "''''" sample_host JNull "''/p/''" "''/p/''"
      "''NotFound''"]
    readConfig_outcomes [of "DocFail ''NotReadable''" "''''" sample_host JNull "''/p/''" "''/p/''"
      "''NotReadable''"]
  by (simp add: sample_host_def sample_parse_def CONFIG_FILE_NAME_def)

subsection \<open>Lint dispatcher\<close>

lemma lintOneFile_sends:
  "\<not> str_truthy (configErrorMessage s) \<Longrightarrow>
     lintOneFile_run h s text fullPath curRoot cur out
       = (execPeer_settled h curRoot cur fullPath out Pending, True)"
  by (simp add: lintOneFile_run_def lintOneFile_def)

text \<open>
  C2. With \<open>configErrorMessage\<close> set (a non-empty string, as \<open>if (configErrorMessage)\<close>
  tests), a lint request resolves with one diagnostic that carries the message, has type
  \<open>ERROR\<close> and sits at line -1, and no request goes to the worker, whatever the worker
  would have answered.
\<close>

theorem config_error_short_circuit:
  assumes "configErrorMessage s = Str m" and "m \<noteq> []"
  shows "lintOneFile s text fullPath
           = (Settled (Resolved (Some [\<lparr>pos = \<lparr>line = - 1, ch = 0\<rparr>, endPos = None,
                 message = Str m, type = ERROR, moreInfoURL = None\<rparr>])), None)
       \<and> lintOneFile_run h s text fullPath curRoot cur out
           = (Settled (Resolved (Some [\<lparr>pos = \<lparr>line = - 1, ch = 0\<rparr>, endPos = None,
                 message = Str m, type = ERROR, moreInfoURL = None\<rparr>])), False)"
  using assms
  by (simp add: lintOneFile_run_def lintOneFile_def getLinterConfigFileErrorMsg_def)

text \<open>
  After a reload that failed on malformed JSON, the text is not sent even though the worker
  would report a finding.
\<close>

theorem config_error_short_circuit_witness:
  "configErrorMessage sample_failed = Str ''Invalid JSON in .htmlvalidate.json''
   \<and> ''Invalid JSON in .htmlvalidate.json'' \<noteq> []
   \<and> lintOneFile_run sample_host sample_failed ''<p>'' ''/p/a.html'' ''/p/'' (Some sample_editor)
         (ExecDone (Some [sample_finding]))
       = (Settled (Resolved (Some [\<lparr>pos = \<lparr>line = - 1, ch = 0\<rparr>, endPos = None,
             message = Str ''Invalid JSON in .htmlvalidate.json'', type = ERROR,
             moreInfoURL = None\<rparr>])), False)"
proof -
  have set_msg: "configErrorMessage sample_failed = Str ''Invalid JSON in .htmlvalidate.json''"
    by (simp add: sample_failed_def)
  have nonempty: "''Invalid JSON in .htmlvalidate.json'' \<noteq> []"
    by simp
  show ?thesis
    using set_msg nonempty
      config_error_short_circuit [OF set_msg nonempty, of "''<p>''" "''/p/a.html''" sample_host
        "''/p/''" "Some sample_editor" "ExecDone (Some [sample_finding])"]
    by simp
qed

text \<open>
  C4. A request reached the worker, and when the worker answers there is no current full
  editor, or the current editor shows another file: the promise is rejected with the
  not-active error, so it carries no diagnostics.
\<close>

theorem stale_result_rejected:
  assumes "\<not> str_truthy (configErrorMessage s)"
    and "cur = None \<or> (\<exists>ed. cur = Some ed \<and> document_file_fullPath ed \<noteq> fullPath)"
  shows "lintOneFile_run h s text fullPath curRoot cur (ExecDone lintResult)
           = (Settled (Rejected (''Lint failed as  ''
                 @ getProjectRelativeOrDisplayPath h curRoot fullPath @ '' is not active.'')), True)"
  using assms by (auto simp add: lintOneFile_sends lintOneFile_then_def)

text \<open>
  The editor shows \<open>/p/a.html\<close> when the answer for \<open>/p/b.html\<close> arrives; or no editor
  is open.
\<close>

theorem stale_result_rejected_witness:
  "\<not> str_truthy (configErrorMessage sample_loaded)
   \<and> document_file_fullPath sample_editor \<noteq> ''/p/b.html''
   \<and> lintOneFile_run sample_host sample_loaded ''<p>'' ''/p/b.html'' ''/p/'' (Some sample_editor)
         (ExecDone (Some [sample_finding]))
       = (Settled (Rejected ''Lint failed as  b.html is not active.''), True)
   \<and> lintOneFile_run sample_host sample_loaded ''<p>'' ''/p/b.html'' ''/p/'' None
         (ExecDone (Some [sample_finding]))
       = (Settled (Rejected ''Lint failed as  b.html is not active.''), True)"
proof -
  have unset: "\<not> str_truthy (configErrorMessage sample_loaded)"
    by (simp add: sample_loaded_def)
  have other: "document_file_fullPath sample_editor \<noteq> ''/p/b.html''"
    by (simp add: sample_editor_def)
  have moved: "Some sample_editor = None
      \<or> (\<exists>ed. Some sample_editor = Some ed \<and> document_file_fullPath ed \<noteq> ''/p/b.html'')"
    using other by simp
  have closed: "(None :: editor option) = None
      \<or> (\<exists>ed. None = Some ed \<and> document_file_fullPath ed \<noteq> ''/p/b.html'')"
    by simp
  show ?thesis
    using unset other
      stale_result_rejected [OF unset moved, of sample_host "''<p>''" "''/p/''" "Some [sample_finding]"]
      stale_result_rejected [OF unset closed, of sample_host "''<p>''" "''/p/''" "Some [sample_finding]"]
    by (simp add: sample_host_def)
qed

text \<open>
  C7. A request reached the worker, and when the worker answers the current editor still
  shows the file: each finding becomes a diagnostic with both positions translated by the
  editor from the finding's offsets, the message followed by the rule id in parentheses,
  severity 1 as \<open>WARNING\<close>, 2 as \<open>ERROR\<close>, anything else as \<open>META\<close>, and the rule's URL;
  an answer without findings resolves the promise without a value.
\<close>

theorem findings_converted:
  assumes "\<not> str_truthy (configErrorMessage s)"
    and "cur = Some ed" and "document_file_fullPath ed = fullPath"
  shows "fst (lintOneFile_run h s text fullPath curRoot cur (ExecDone lintResult))
           = Settled (Resolved
               (case lintResult of
                  None \<Rightarrow> None
                | Some findings \<Rightarrow>
                    if findings = [] then None
                    else Some (map (\<lambda>f.
                      \<lparr>pos = posFromIndex ed (le_start f),
                       endPos = Some (posFromIndex ed (le_end f)),
                       message = Str (le_message f @ '' ('' @ le_ruleId f @ '')''),
                       type = (if le_severity f = 1 then WARNING
                               else if le_severity f = 2 then ERROR else META),
                       moreInfoURL = le_ruleUrl f\<rparr>) findings)))"
proof (cases lintResult)
  case None
  with assms show ?thesis
    by (simp add: lintOneFile_sends lintOneFile_then_def)
next
  case (Some findings)
  with assms show ?thesis
    by (cases findings) (simp_all add: lintOneFile_sends lintOneFile_then_def toDiagnostic_def)
qed

text \<open>
  One finding of severity 2 at offsets 85 to 90, in an editor with lines of 80 characters;
  and an empty answer.
\<close>

theorem findings_converted_witness:
  "\<not> str_truthy (configErrorMessage sample_loaded)
   \<and> document_file_fullPath sample_editor = ''/p/a.html''
   \<and> fst (lintOneFile_run sample_host sample_loaded ''<p>'' ''/p/a.html'' ''/p/'' (Some sample_editor)
         (ExecDone (Some [sample_finding])))
       = Settled (Resolved (Some [\<lparr>pos = \<lparr>line = 1, ch = 5\<rparr>, endPos = Some \<lparr>line = 1, ch = 10\<rparr>,
            message = Str ''Element is deprecated (deprecated)'', type = ERROR,
            moreInfoURL = Some ''https://html-validate.org/rules/deprecated.html''\<rparr>]))
   \<and> fst (lintOneFile_run sample_host sample_loaded ''<p>'' ''/p/a.html'' ''/p/'' (Some sample_editor)
         (ExecDone (Some [])))
       = Settled (Resolved None)"
proof -
  have unset: "\<not> str_truthy (configErrorMessage sample_loaded)"
    by (simp add: sample_loaded_def)
  have same: "document_file_fullPath sample_editor = ''/p/a.html''"
    by (simp add: sample_editor_def)
  show ?thesis
    using unset same
      findings_converted [OF unset refl same, of sample_host "''<p>''" "''/p/''" "Some [sample_finding]"]
      findings_converted [OF unset refl same, of sample_host "''<p>''" "''/p/''" "Some []"]
    by (simp add: sample_editor_def sample_finding_def)
qed

text \<open>
  C10. A request reached the worker and the worker's call fails: the promise of
  \<open>lintOneFile\<close> stays pending, neither resolved nor rejected. (The dispatcher never
  writes the module's state, which is why its functions return none.)
\<close>

theorem backend_failure_leaves_pending:
  assumes "\<not> str_truthy (configErrorMessage s)"
  shows "lintOneFile_run h s text fullPath curRoot cur (ExecFailed err) = (Pending, True)"
  using assms by (simp add: lintOneFile_sends)

text \<open>
  The worker is terminated while a request for the open file is in flight.
\<close>

theorem backend_failure_leaves_pending_witness:
  "\<not> str_truthy (configErrorMessage sample_loaded)
   \<and> lintOneFile_run sample_host sample_loaded ''<p>'' ''/p/a.html'' ''/p/'' (Some sample_editor)
         (ExecFailed ''worker terminated'')
       = (Pending, True)"
proof -
  have unset: "\<not> str_truthy (configErrorMessage sample_loaded)"
    by (simp add: sample_loaded_def)
  show ?thesis
    using unset
      backend_failure_leaves_pending [OF unset, of sample_host "''<p>''" "''/p/a.html''" "''/p/''"
        "Some sample_editor" "''worker terminated''"]
    by simp
qed

subsection \<open>Change-event router\<close>

lemma isFileInArray_Some: "isFileInArray pathToMatch (Some paths) = (pathToMatch \<in> set paths)"
  by (induction paths) auto

lemma isFileInArray_iff:
  "isFileInArray pathToMatch arr = (\<exists>paths. arr = Some paths \<and> pathToMatch \<in> set paths)"
  by (cases arr) (simp_all add: isFileInArray_Some)

lemma reloadOptions_changes: "reloadOptions s \<noteq> (s, ts)"
proof
  assume "reloadOptions s = (s, ts)"
  then have "configID (fst (reloadOptions s)) = configID s" by simp
  then show False by (simp add: reloadOptions_def)
qed

text \<open>
  C8. A change notification starts a reload exactly when the path of the project's config
  file is the changed path, or is among the added paths, or is among the removed paths;
  every other notification leaves the state as it is and starts nothing.
\<close>

theorem config_change_triggers_reload:
  assumes "configFilePath = path_join h (projectRoot s) CONFIG_FILE_NAME"
  shows "(projectFileChanged h changedPath added removed s = reloadOptions s)
           = (changedPath = Some configFilePath
              \<or> (\<exists>paths. added = Some paths \<and> configFilePath \<in> set paths)
              \<or> (\<exists>paths. removed = Some paths \<and> configFilePath \<in> set paths))
       \<and> (projectFileChanged h changedPath added removed s = (s, []))
           = (\<not> (changedPath = Some configFilePath
              \<or> (\<exists>paths. added = Some paths \<and> configFilePath \<in> set paths)
              \<or> (\<exists>paths. removed = Some paths \<and> configFilePath \<in> set paths)))"
proof -
  define hit where "hit \<longleftrightarrow> changedPath = Some configFilePath
      \<or> (\<exists>paths. added = Some paths \<and> configFilePath \<in> set paths)
      \<or> (\<exists>paths. removed = Some paths \<and> configFilePath \<in> set paths)"
  have differ: "reloadOptions s \<noteq> (s, [])" by (rule reloadOptions_changes)
  have run: "projectFileChanged h changedPath added removed s
      = (if hit then reloadOptions s else (s, []))"
    by (simp add: hit_def projectFileChanged_def Let_def assms isFileInArray_iff)
  have "(projectFileChanged h changedPath added removed s = reloadOptions s) = hit
      \<and> (projectFileChanged h changedPath added removed s = (s, [])) = (\<not> hit)"
    using run differ by (cases hit) (simp_all add: not_sym)
  then show ?thesis by (simp only: hit_def)
qed

text \<open>
  The config file is among the added paths; and a notification about other files only,
  an unsupported config file among them.
\<close>

theorem config_change_triggers_reload_witness:
  "path_join sample_host (projectRoot (initial ''/p/'')) CONFIG_FILE_NAME = ''/p/.htmlvalidate.json''
   \<and> projectFileChanged sample_host (Some ''/p/'') (Some [''/p/a.html'', ''/p/.htmlvalidate.json'']) None
        (initial ''/p/'') = reloadOptions (initial ''/p/'')
   \<and> projectFileChanged sample_host (Some ''/p/a.html'') None (Some [''/p/.htmlvalidate.js''])
        (initial ''/p/'') = (initial ''/p/'', [])"
proof -
  have cfg: "path_join sample_host (projectRoot (initial ''/p/'')) CONFIG_FILE_NAME
      = ''/p/.htmlvalidate.json''"
    by (simp add: sample_host_def initial_def CONFIG_FILE_NAME_def)
  show ?thesis
    using cfg
      config_change_triggers_reload [OF cfg [symmetric], of "Some ''/p/''"
        "Some [''/p/a.html'', ''/p/.htmlvalidate.json'']" None]
      config_change_triggers_reload [OF cfg [symmetric], of "Some ''/p/a.html''" None
        "Some [''/p/.htmlvalidate.js'']"]
    by simp
qed

subsection \<open>The generation counter\<close>












subsection \<open>Reloads that nothing interleaves with\<close>





lemma then_truthy:
  "truthy config \<Longrightarrow> scanningProjectPath = projectRoot s \<Longrightarrow>
     reloadOptions_then scanningProjectPath config s
       = (s\<lparr>projectSpecificOptions := Some config, configErrorMessage := Null,
            configID := configID s + 1,
            effects := effects s @ [CountEvent ''html'' ''configPresent'', RequestRun]\<rparr>, [])"
  by (simp add: reloadOptions_then_def Let_def)

lemma then_falsy:
  "\<not> truthy config \<Longrightarrow> scanningProjectPath = projectRoot s \<Longrightarrow>
     reloadOptions_then scanningProjectPath config s
       = (s\<lparr>configID := configID s + 1\<rparr>,
          [ExistsCheck scanningProjectPath UNSUPPORTED_CONFIG_FILES])"
  by (simp add: reloadOptions_then_def Let_def validateUnsupportedConfig_def
      UNSUPPORTED_CONFIG_FILES_def)

lemma then_tasks:
  "snd (reloadOptions_then scanningProjectPath config s)
     = (if scanningProjectPath = projectRoot s \<and> \<not> truthy config
        then [ExistsCheck scanningProjectPath UNSUPPORTED_CONFIG_FILES] else [])"
  by (simp add: reloadOptions_then_def Let_def validateUnsupportedConfig_def
      UNSUPPORTED_CONFIG_FILES_def)

lemma detector_run_two:
  "p = projectRoot s \<Longrightarrow>
     detector_run h ex p UNSUPPORTED_CONFIG_FILES s
       = s\<lparr>configErrorMessage :=
              (if ex (path_join h p ''.htmlvalidate.js'')
               then Str (format h (HTML_LINT_CONFIG_UNSUPPORTED h) ''.htmlvalidate.js'')
               else if ex (path_join h p ''.htmlvalidate.cjs'')
               then Str (format h (HTML_LINT_CONFIG_UNSUPPORTED h) ''.htmlvalidate.cjs'')
               else Undefined),
            effects := effects s @ [RequestRun]\<rparr>"
  by (simp add: UNSUPPORTED_CONFIG_FILES_def validateUnsupportedConfig_finish_def)

lemma reload_run_truthy:
  assumes "readConfig h (projectRoot s) (projectRoot s) r = Resolved config" and "truthy config"
  shows "reload_run h r ex s
           = s\<lparr>projectSpecificOptions := Some config, configErrorMessage := Null,
               configID := configID s + 2,
               effects := effects s @ [CountEvent ''html'' ''configPresent'', RequestRun]\<rparr>"
  using assms by (simp add: reload_run_def Let_def reloadOptions_def then_truthy)

lemma reload_run_falsy:
  assumes "readConfig h (projectRoot s) (projectRoot s) r = Resolved config" and "\<not> truthy config"
  shows "reload_run h r ex s
           = s\<lparr>projectSpecificOptions := Some JNull,
               configErrorMessage :=
                 (if ex (path_join h (projectRoot s) ''.htmlvalidate.js'')
                  then Str (format h (HTML_LINT_CONFIG_UNSUPPORTED h) ''.htmlvalidate.js'')
                  else if ex (path_join h (projectRoot s) ''.htmlvalidate.cjs'')
                  then Str (format h (HTML_LINT_CONFIG_UNSUPPORTED h) ''.htmlvalidate.cjs'')
                  else Undefined),
               configID := configID s + 2,
               effects := effects s @ [RequestRun]\<rparr>"
  using assms
  by (simp add: reload_run_def Let_def reloadOptions_def then_falsy detector_run_two)

subsection \<open>Unsupported-config detector\<close>

text \<open>
  The detector runs not only when the loader resolved \<open>null\<close>: the \<open>then\<close> callback
  tests \<open>if (config)\<close>, so a config file whose text is \<open>false\<close>, valid JSON, sends the
  reload to the detector, and an unsupported file next to it is reported.
\<close>

theorem unsupported_config_counterexample:
  "readConfig sample_host ''/p/'' ''/p/'' (DocDone ''false'') = Resolved (JBool False)
   \<and> JBool False \<noteq> JNull
   \<and> snd (reloadOptions_settled ''/p/'' (Resolved (JBool False)) (fst (reloadOptions (initial ''/p/''))))
       = [ExistsCheck ''/p/'' UNSUPPORTED_CONFIG_FILES]
   \<and> configErrorMessage (reload_run sample_host (DocDone ''false'')
         (exists_in [''/p/.htmlvalidate.json'', ''/p/.htmlvalidate.js'']) (initial ''/p/''))
       = Str ''Unsupported config file .htmlvalidate.js''"
proof -
  have parsed: "readConfig sample_host ''/p/'' ''/p/'' (DocDone ''false'') = Resolved (JBool False)"
    by (simp add: readConfig_def sample_host_def sample_parse_def)
  have root: "projectRoot (initial ''/p/'') = ''/p/''"
    by (simp add: initial_def)
  have "configErrorMessage (reload_run sample_host (DocDone ''false'')
         (exists_in [''/p/.htmlvalidate.json'', ''/p/.htmlvalidate.js'']) (initial ''/p/''))
       = Str ''Unsupported config file .htmlvalidate.js''"
    using parsed root
    by (simp add: reload_run_falsy [where config = "JBool False"] exists_in_def sample_host_def)
  moreover have "snd (reloadOptions_settled ''/p/'' (Resolved (JBool False))
        (fst (reloadOptions (initial ''/p/''))))
       = [ExistsCheck ''/p/'' UNSUPPORTED_CONFIG_FILES]"
    by (simp add: then_tasks reloadOptions_def initial_def)
  ultimately show ?thesis using parsed by simp
qed

text \<open>
  C5, amended. In a reload that nothing interleaves with: when the loader resolved a truthy
  value (every object is one), the value is published, the error is cleared and no
  existence check decides anything; when it resolved a falsy value (\<open>null\<close>, \<open>false\<close>, 0
  or the empty string), the error names \<open>.htmlvalidate.js\<close> if that exists, else
  \<open>.htmlvalidate.cjs\<close> if that exists, else there is none. The \<open>then\<close> callback starts
  the detector exactly when the root still matches and the value is falsy, the \<open>catch\<close>
  callback never.
\<close>

theorem unsupported_config_priority:
  assumes "readConfig h (projectRoot s) (projectRoot s) r = Resolved config"
  shows "(truthy config \<longrightarrow>
            reload_run h r ex s
              = s\<lparr>projectSpecificOptions := Some config, configErrorMessage := Null,
                  configID := configID s + 2,
                  effects := effects s @ [CountEvent ''html'' ''configPresent'', RequestRun]\<rparr>)
       \<and> (\<not> truthy config \<longrightarrow>
            configErrorMessage (reload_run h r ex s)
              = (if ex (path_join h (projectRoot s) ''.htmlvalidate.js'')
                 then Str (format h (HTML_LINT_CONFIG_UNSUPPORTED h) ''.htmlvalidate.js'')
                 else if ex (path_join h (projectRoot s) ''.htmlvalidate.cjs'')
                 then Str (format h (HTML_LINT_CONFIG_UNSUPPORTED h) ''.htmlvalidate.cjs'')
                 else Undefined))
       \<and> snd (reloadOptions_settled scanningProjectPath (Resolved config) s')
            = (if scanningProjectPath = projectRoot s' \<and> \<not> truthy config
               then [ExistsCheck scanningProjectPath UNSUPPORTED_CONFIG_FILES] else [])
       \<and> snd (reloadOptions_settled scanningProjectPath (Rejected err) s') = []"
  using assms
  by (simp add: reload_run_truthy reload_run_falsy then_tasks reloadOptions_catch_def Let_def)

text \<open>
  Both unsupported files and no config: the first is named. Only the second: it is named.
  A config that is an object next to an unsupported file: no error.
\<close>

theorem unsupported_config_priority_witness:
  "readConfig sample_host (projectRoot (initial ''/p/'')) (projectRoot (initial ''/p/''))
       (DocFail ''NotFound'') = Resolved JNull
   \<and> configErrorMessage (reload_run sample_host (DocFail ''NotFound'')
         (exists_in [''/p/.htmlvalidate.cjs'', ''/p/.htmlvalidate.js'']) (initial ''/p/''))
       = Str ''Unsupported config file .htmlvalidate.js''
   \<and> configErrorMessage (reload_run sample_host (DocFail ''NotFound'')
         (exists_in [''/p/.htmlvalidate.cjs'']) (initial ''/p/''))
       = Str ''Unsupported config file .htmlvalidate.cjs''
   \<and> readConfig sample_host (projectRoot (initial ''/p/'')) (projectRoot (initial ''/p/''))
       (DocDone ''{}'') = Resolved (JObj [])
   \<and> configErrorMessage (reload_run sample_host (DocDone ''{}'')
         (exists_in [''/p/.htmlvalidate.json'', ''/p/.htmlvalidate.js'']) (initial ''/p/''))
       = Null"
proof -
  have absent: "readConfig sample_host (projectRoot (initial ''/p/'')) (projectRoot (initial ''/p/''))
       (DocFail ''NotFound'') = Resolved JNull"
    by (simp add: readConfig_def sample_host_def)
  have present: "readConfig sample_host (projectRoot (initial ''/p/'')) (projectRoot (initial ''/p/''))
       (DocDone ''{}'') = Resolved (JObj [])"
    by (simp add: readConfig_def sample_host_def sample_parse_def)
  show ?thesis
    using absent present
      unsupported_config_priority [OF absent,
        of "exists_in [''/p/.htmlvalidate.cjs'', ''/p/.htmlvalidate.js'']" "''/p/''" "initial ''/p/''" "''e''"]
      unsupported_config_priority [OF absent,
        of "exists_in [''/p/.htmlvalidate.cjs'']" "''/p/''" "initial ''/p/''" "''e''"]
      unsupported_config_priority [OF present,
        of "exists_in [''/p/.htmlvalidate.json'', ''/p/.htmlvalidate.js'']" "''/p/''" "initial ''/p/''" "''e''"]
    by (simp add: exists_in_def sample_host_def initial_def)
qed

text \<open>
  A reload in a project without any config file, with the root unchanged throughout, finds
  nothing and still calls \<open>requestRun\<close>.
\<close>

theorem null_config_counterexample:
  "readConfig sample_host ''/p/'' ''/p/'' (DocFail ''NotFound'') = Resolved JNull
   \<and> configErrorMessage (reload_run sample_host (DocFail ''NotFound'') (exists_in []) (initial ''/p/''))
       = Undefined
   \<and> effects (reload_run sample_host (DocFail ''NotFound'') (exists_in []) (initial ''/p/''))
       = [RequestRun]
   \<and> effects (reload_run sample_host (DocFail ''NotFound'') (exists_in []) (initial ''/p/''))
       \<noteq> effects (initial ''/p/'')"
proof -
  have absent: "readConfig sample_host ''/p/'' ''/p/'' (DocFail ''NotFound'') = Resolved JNull"
    by (simp add: readConfig_def sample_host_def)
  have root: "projectRoot (initial ''/p/'') = ''/p/''"
    by (simp add: initial_def)
  have "reload_run sample_host (DocFail ''NotFound'') (exists_in []) (initial ''/p/'')
      = (initial ''/p/'')\<lparr>projectSpecificOptions := Some JNull, configErrorMessage := Undefined,
          configID := 2, effects := [RequestRun]\<rparr>"
    using absent root
    by (simp add: reload_run_falsy [where config = JNull] exists_in_def) (simp add: initial_def)
  then show ?thesis using absent by (simp add: initial_def)
qed

text \<open>
  C6, amended. When the read resolves with \<open>null\<close> and the root still matches, the
  detector starts. When it ends (a name exists, or the last one does not) and the root
  still matches, \<open>configErrorMessage\<close> becomes its result, the error for the name found
  or \<open>undefined\<close>, and \<open>requestRun\<close> is called in both cases; when the root does not
  match, nothing changes. \<open>projectSpecificOptions\<close> is not written by the detector, so in
  a reload that nothing interleaves with it stays \<open>null\<close>.
\<close>

theorem null_config_detector_result:
  "(scanningProjectPath = projectRoot s \<longrightarrow>
      reloadOptions_settled scanningProjectPath (Resolved JNull) s
        = (s\<lparr>configID := configID s + 1\<rparr>,
           [ExistsCheck scanningProjectPath UNSUPPORTED_CONFIG_FILES]))
   \<and> existsAsync_resolved h scanningProjectPath (name # rest) True s
        = (if scanningProjectPath = projectRoot s
           then s\<lparr>configErrorMessage := Str (format h (HTML_LINT_CONFIG_UNSUPPORTED h) name),
                  effects := effects s @ [RequestRun]\<rparr>
           else s, [])
   \<and> existsAsync_resolved h scanningProjectPath [name] False s
        = (if scanningProjectPath = projectRoot s
           then s\<lparr>configErrorMessage := Undefined, effects := effects s @ [RequestRun]\<rparr>
           else s, [])
   \<and> existsAsync_resolved h scanningProjectPath (name # next # rest) False s
        = (s, [ExistsCheck scanningProjectPath (next # rest)])
   \<and> (readConfig h (projectRoot s) (projectRoot s) r = Resolved JNull \<longrightarrow>
        reload_run h r ex s
          = s\<lparr>projectSpecificOptions := Some JNull,
              configErrorMessage :=
                (if ex (path_join h (projectRoot s) ''.htmlvalidate.js'')
                 then Str (format h (HTML_LINT_CONFIG_UNSUPPORTED h) ''.htmlvalidate.js'')
                 else if ex (path_join h (projectRoot s) ''.htmlvalidate.cjs'')
                 then Str (format h (HTML_LINT_CONFIG_UNSUPPORTED h) ''.htmlvalidate.cjs'')
                 else Undefined),
              configID := configID s + 2,
              effects := effects s @ [RequestRun]\<rparr>)"
proof -
  have "readConfig h (projectRoot s) (projectRoot s) r = Resolved JNull \<longrightarrow>
        reload_run h r ex s
          = s\<lparr>projectSpecificOptions := Some JNull,
              configErrorMessage :=
                (if ex (path_join h (projectRoot s) ''.htmlvalidate.js'')
                 then Str (format h (HTML_LINT_CONFIG_UNSUPPORTED h) ''.htmlvalidate.js'')
                 else if ex (path_join h (projectRoot s) ''.htmlvalidate.cjs'')
                 then Str (format h (HTML_LINT_CONFIG_UNSUPPORTED h) ''.htmlvalidate.cjs'')
                 else Undefined),
              configID := configID s + 2,
              effects := effects s @ [RequestRun]\<rparr>"
    using reload_run_falsy [where config = JNull] by simp
  then show ?thesis
    by (simp add: then_falsy validateUnsupportedConfig_finish_def)
qed

text \<open>
  No config and \<open>.htmlvalidate.cjs\<close> present; and no config file of any kind.
\<close>

theorem null_config_detector_result_witness:
  "readConfig sample_host (projectRoot (initial ''/p/'')) (projectRoot (initial ''/p/''))
       (DocFail ''NotFound'') = Resolved JNull
   \<and> reload_run sample_host (DocFail ''NotFound'') (exists_in [''/p/.htmlvalidate.cjs'']) (initial ''/p/'')
       = \<lparr>projectSpecificOptions = Some JNull,
          configErrorMessage = Str ''Unsupported config file .htmlvalidate.cjs'',
          configID = 2, projectRoot = ''/p/'', effects = [RequestRun]\<rparr>
   \<and> reload_run sample_host (DocFail ''NotFound'') (exists_in [''/p/index.html'']) (initial ''/p/'')
       = \<lparr>projectSpecificOptions = Some JNull, configErrorMessage = Undefined,
          configID = 2, projectRoot = ''/p/'', effects = [RequestRun]\<rparr>"
proof -
  have absent: "readConfig sample_host (projectRoot (initial ''/p/'')) (projectRoot (initial ''/p/''))
       (DocFail ''NotFound'') = Resolved JNull"
    by (simp add: readConfig_def sample_host_def)
  show ?thesis
    using absent
      null_config_detector_result [of "''/p/''" "initial ''/p/''" sample_host "''.htmlvalidate.js''"
        "[]" "''.htmlvalidate.cjs''" "DocFail ''NotFound''" "exists_in [''/p/.htmlvalidate.cjs'']"]
      null_config_detector_result [of "''/p/''" "initial ''/p/''" sample_host "''.htmlvalidate.js''"
        "[]" "''.htmlvalidate.cjs''" "DocFail ''NotFound''" "exists_in [''/p/index.html'']"]
    by (simp add: exists_in_def sample_host_def initial_def)
qed

end
